theory Spec2Isabelle
  imports Main "HOL-Library.Sublist"
begin

section \<open>JavaScript values\<close>

text \<open>
  A JavaScript string is a sequence of UTF-16 code units. It is modelled as a
  \<^typ>\<open>string\<close> whose characters stand for the code units below 256; on these
  \<open>encodeURIComponent\<close> never raises \<open>URIError\<close> (there are no surrogates).
  Numbers that hold row identifiers are integers, timestamps (\<open>Date\<close>) are natural numbers.
\<close>

type_synonym timestamp = nat

datatype thrown = Error string | NonError

text \<open>\<open>error instanceof Error ? error.message : 'Unknown error'\<close>\<close>

definition error_message :: "thrown \<Rightarrow> string" where
  "error_message e = (case e of Error m \<Rightarrow> m | NonError \<Rightarrow> ''Unknown error'')"

text \<open>Truthiness of a nullable string, number and boolean.\<close>

definition truthy_string :: "string option \<Rightarrow> bool" where
  "truthy_string v = (case v of None \<Rightarrow> False | Some s \<Rightarrow> s \<noteq> [])"

definition truthy_number :: "int option \<Rightarrow> bool" where
  "truthy_number v = (case v of None \<Rightarrow> False | Some n \<Rightarrow> n \<noteq> 0)"

definition truthy_bool :: "bool option \<Rightarrow> bool" where
  "truthy_bool v = (case v of None \<Rightarrow> False | Some b \<Rightarrow> b)"

text \<open>The template literal \<open>${n}\<close> of an integer: its decimal digits.\<close>

definition digit_char :: "nat \<Rightarrow> char" where
  "digit_char d = ''0123456789'' ! d"

fun digits :: "nat \<Rightarrow> string" where
  "digits n = (if n < 10 then [digit_char n] else digits (n div 10) @ [digit_char (n mod 10)])"

declare digits.simps [simp del]

definition number_toString :: "int \<Rightarrow> string" where
  "number_toString i = (if i < 0 then CHR ''-'' # digits (nat (- i)) else digits (nat i))"

subsection \<open>encodeURIComponent\<close>

text \<open>
  Unescaped are the letters, the digits and \<open>- _ . ! ~ * ' ( )\<close>; every other code unit is
  written as the percent-encoded bytes of its UTF-8 form (one byte below 128, two bytes from
  128 to 255).
\<close>

definition uri_unreserved :: "char \<Rightarrow> bool" where
  "uri_unreserved c =
     (let n = (of_char c :: nat) in
        (65 \<le> n \<and> n \<le> 90) \<or> (97 \<le> n \<and> n \<le> 122) \<or> (48 \<le> n \<and> n \<le> 57) \<or>
        c \<in> set ''-_.!~*'()'')"

definition hex_char :: "nat \<Rightarrow> char" where
  "hex_char d = ''0123456789ABCDEF'' ! d"

definition percent_byte :: "nat \<Rightarrow> string" where
  "percent_byte b = [CHR ''%'', hex_char (b div 16), hex_char (b mod 16)]"

definition encode_unit :: "char \<Rightarrow> string" where
  "encode_unit c =
     (let n = (of_char c :: nat) in
        if uri_unreserved c then [c]
        else if n < 128 then percent_byte n
        else percent_byte (192 + n div 64) @ percent_byte (128 + n mod 64))"

definition encodeURIComponent :: "string \<Rightarrow> string" where
  "encodeURIComponent s = concat (map encode_unit s)"

subsection \<open>String.prototype.replace\<close>

text \<open>
  \<open>GetSubstitution\<close> for a match without capture groups: in the replacement text
  \<open>$$\<close> stands for a dollar sign, \<open>$&\<close> for the matched text, \<open>$`\<close> for the text before
  the match and \<open>$'\<close> for the text after it; every other character is copied.
\<close>

fun get_substitution :: "string \<Rightarrow> string \<Rightarrow> string \<Rightarrow> string \<Rightarrow> string" where
  "get_substitution matched preceding following [] = []"
| "get_substitution matched preceding following [c] = [c]"
| "get_substitution matched preceding following (c # d # r) =
     (if c = CHR ''$'' \<and> d = CHR ''$'' then CHR ''$'' # get_substitution matched preceding following r
      else if c = CHR ''$'' \<and> d = CHR ''&'' then matched @ get_substitution matched preceding following r
      else if c = CHR ''$'' \<and> d = CHR 0x60 then preceding @ get_substitution matched preceding following r
      else if c = CHR ''$'' \<and> d = CHR 0x27 then following @ get_substitution matched preceding following r
      else c # get_substitution matched preceding following (d # r))"

text \<open>
  \<open>str.replace(searchString, replaceValue)\<close> with a string pattern: only the first
  occurrence of the pattern is replaced. \<open>replace_first_from passed pat rep rest\<close> scans
  \<open>rest\<close>, \<open>passed\<close> being the text already scanned.
\<close>

fun replace_first_from :: "string \<Rightarrow> string \<Rightarrow> string \<Rightarrow> string \<Rightarrow> string" where
  "replace_first_from passed pat rep [] =
     (if pat = [] then get_substitution pat passed [] rep else [])"
| "replace_first_from passed pat rep (c # cs) =
     (if prefix pat (c # cs)
      then get_substitution pat passed (drop (length pat) (c # cs)) rep @ drop (length pat) (c # cs)
      else c # replace_first_from (passed @ [c]) pat rep cs)"

definition replace_string :: "string \<Rightarrow> string \<Rightarrow> string \<Rightarrow> string" where
  "replace_string pat rep str = replace_first_from [] pat rep str"

text \<open>
  \<open>str.replace(/\[name\]/gi, replaceValue)\<close>: every match of the pattern, found from left to
  right, is replaced. Without the \<open>u\<close> flag the \<open>i\<close> flag compares the upper-case forms of
  single code units, so exactly the two cases of each of the four letters match.
\<close>

fun name_token_at :: "string \<Rightarrow> bool" where
  "name_token_at (c1 # c2 # c3 # c4 # c5 # c6 # r) =
     (c1 = CHR ''['' \<and> (c2 = CHR ''n'' \<or> c2 = CHR ''N'') \<and> (c3 = CHR ''a'' \<or> c3 = CHR ''A'') \<and>
      (c4 = CHR ''m'' \<or> c4 = CHR ''M'') \<and> (c5 = CHR ''e'' \<or> c5 = CHR ''E'') \<and> c6 = CHR '']'')"
| "name_token_at r = False"

function replace_name_from :: "string \<Rightarrow> string \<Rightarrow> string \<Rightarrow> string" where
  "replace_name_from passed rep [] = []"
| "replace_name_from passed rep (c # cs) =
     (if name_token_at (c # cs)
      then get_substitution (take 6 (c # cs)) passed (drop 6 (c # cs)) rep
           @ replace_name_from (passed @ take 6 (c # cs)) rep (drop 6 (c # cs))
      else c # replace_name_from (passed @ [c]) rep cs)"
  by pat_completeness auto
termination
  by (relation "measure (\<lambda>(passed, rep, rest). length rest)") auto

definition replace_name :: "string \<Rightarrow> string \<Rightarrow> string" where
  "replace_name rep str = replace_name_from [] rep str"

section \<open>The schema\<close>

text \<open>
  The tables of \<open>shared/schema\<close> that the send pipeline, the trackers, the unsubscribe
  processor and the campaign routes read or write. A table is the list of its rows in storage
  order. The \<open>serial\<close> key of an event row is assigned by the database and read by none of
  these operations; it is left out, as are the columns of settings, lists and templates that
  they do not read. The database executes every statement it is given, except a write whose
  references do not resolve.
\<close>

datatype campaign_status = Draft | Scheduled | Sending | Sent | Failed

datatype contact_status = Active | Unsubscribed | Bounced

record campaign_row =
  c_id :: int
  c_name :: string
  c_subject :: string
  c_content :: string
  c_senderName :: string
  c_senderEmail :: string
  c_replyToEmail :: string
  c_listId :: int
  c_userId :: int
  c_templateId :: "int option"
  c_status :: campaign_status
  c_scheduledAt :: "timestamp option"
  c_sentAt :: "timestamp option"
  c_createdAt :: timestamp
  c_updatedAt :: timestamp

record contact_row =
  ct_id :: int
  ct_email :: string
  ct_name :: "string option"
  ct_status :: contact_status
  ct_metadata :: "string option"
  ct_userId :: int
  ct_createdAt :: timestamp
  ct_updatedAt :: timestamp

record membership_row =
  m_id :: int
  m_contactId :: int
  m_listId :: int
  m_createdAt :: timestamp
  m_updatedAt :: timestamp

record contactList_row =
  l_id :: int
  l_name :: string
  l_description :: "string option"
  l_userId :: int

record template_row =
  t_id :: int
  t_name :: string
  t_content :: string
  t_userId :: int

text \<open>The \<open>jsonb\<close> metadata of an event: \<open>{ reason, type }\<close> of a bounce, \<open>{ url }\<close> of a click.\<close>

datatype event_metadata = BounceMeta string string | ClickMeta string

record event_row =
  e_campaignId :: int
  e_contactId :: int
  e_eventType :: string
  e_metadata :: "event_metadata option"
  e_createdAt :: timestamp

record settings_row =
  s_userId :: int
  s_smtpHost :: "string option"
  s_smtpPort :: "int option"
  s_smtpUsername :: "string option"
  s_smtpPassword :: "string option"
  s_useTls :: "bool option"
  s_defaultFooter :: "string option"
  s_includeUnsubscribeLink :: "bool option"

record db =
  campaigns :: "campaign_row list"
  contacts :: "contact_row list"
  contactListMemberships :: "membership_row list"
  contactLists :: "contactList_row list"
  templates :: "template_row list"
  campaignEvents :: "event_row list"
  settings :: "settings_row list"

subsection \<open>Statements\<close>

text \<open>
  \<open>campaign_events\<close> references \<open>campaigns.id\<close> and \<open>contacts.id\<close>: an insert whose
  references do not resolve is refused by the database, and the driver throws. The message
  stands for the driver's.
\<close>

definition fk_violation :: thrown where
  "fk_violation = Error ''violates foreign key constraint''"

definition insert_campaignEvent :: "event_row \<Rightarrow> db \<Rightarrow> thrown + db" where
  "insert_campaignEvent e d =
     (if (\<exists>c \<in> set (campaigns d). c_id c = e_campaignId e) \<and>
         (\<exists>ct \<in> set (contacts d). ct_id ct = e_contactId e)
      then Inr (d\<lparr>campaignEvents := campaignEvents d @ [e]\<rparr>)
      else Inl fk_violation)"

text \<open>\<open>db.update(campaigns).set(...).where(eq(campaigns.id, campaignId))\<close>\<close>

definition update_campaign_where_id :: "int \<Rightarrow> (campaign_row \<Rightarrow> campaign_row) \<Rightarrow> db \<Rightarrow> db" where
  "update_campaign_where_id campaignId f d =
     d\<lparr>campaigns := map (\<lambda>c. if c_id c = campaignId then f c else c) (campaigns d)\<rparr>"


text \<open>
  The recipient query: contacts joined with their memberships, kept where the membership is
  in the list and the contact is active. A contact with two memberships in the list is
  returned twice.
\<close>

definition contactsInList :: "int \<Rightarrow> db \<Rightarrow> contact_row list" where
  "contactsInList listId d =
     concat (map (\<lambda>ct. map (\<lambda>m. ct)
                          (filter (\<lambda>m. ct_id ct = m_contactId m \<and> m_listId m = listId \<and>
                                        ct_status ct = Active)
                                  (contactListMemberships d)))
                 (contacts d))"

section \<open>EmailService\<close>

record SmtpConfig =
  host :: string
  port :: int
  username :: string
  password :: string
  useTLS :: bool

record mail =
  mail_from :: string
  mail_to :: string
  mail_subject :: string
  mail_html :: string
  mail_replyTo :: string

text \<open>
  The transport is outside the program. \<open>createTransport\<close> either throws or gives a
  transporter; \<open>sendMail\<close> of a transporter, given the number of the attempt in this run and
  the message, either resolves (\<open>None\<close>) or rejects with what it throws.
\<close>

type_synonym transporter = "nat \<Rightarrow> mail \<Rightarrow> thrown option"

type_synonym nodemailer = "SmtpConfig \<Rightarrow> thrown + transporter"

record send_result =
  success :: bool
  error :: "string option"

subsection \<open>Content\<close>

definition unsubscribeLink :: string where
  \<open>unsubscribeLink =
     ''<div style="margin-top: 20px; padding-top: 20px; border-top: 1px solid #eee; font-size: 12px; color: #666;">''
     @ [CHR 0x0A] @
     ''          <p>If you no longer wish to receive these emails, you can <a href="[[UNSUBSCRIBE_LINK]]" style="color: #4A6FFF;">unsubscribe here</a>.</p>''
     @ [CHR 0x0A] @
     ''        </div>''\<close>

definition footer_block :: "string \<Rightarrow> string" where
  \<open>footer_block defaultFooter =
     ''<div style="margin-top: 20px; font-size: 12px; color: #666;">''
     @ [CHR 0x0A] @ ''          '' @ defaultFooter
     @ [CHR 0x0A] @ ''        </div>''\<close>

text \<open>The content built once per send: the body, the unsubscribe block, the footer.\<close>

definition base_content :: "campaign_row \<Rightarrow> settings_row \<Rightarrow> string" where
  "base_content campaign userSettings =
     (let content = c_content campaign;
          content = (if truthy_bool (s_includeUnsubscribeLink userSettings)
                     then content @ unsubscribeLink else content);
          content = (if truthy_string (s_defaultFooter userSettings)
                     then content @ footer_block (the (s_defaultFooter userSettings)) else content)
      in content)"

definition unsubscribe_token :: string where
  "unsubscribe_token = ''[[UNSUBSCRIBE_LINK]]''"

definition trackingPixel :: "int \<Rightarrow> int \<Rightarrow> string" where
  \<open>trackingPixel contactId campaignId =
     ''<img src="[[TRACKING_PIXEL_URL]]&contactId='' @ number_toString contactId
     @ ''&campaignId='' @ number_toString campaignId
     @ ''" width="1" height="1" alt="" style="display:none;">''\<close>

definition unsubscribe_url :: "string \<Rightarrow> int \<Rightarrow> string" where
  "unsubscribe_url email campaignId =
     ''https://yourdomain.com/unsubscribe?email='' @ encodeURIComponent email
     @ ''&campaignId='' @ number_toString campaignId"

text \<open>\<open>contact.name || 'there'\<close>\<close>

definition name_or_there :: "contact_row \<Rightarrow> string" where
  "name_or_there contact = (if truthy_string (ct_name contact) then the (ct_name contact) else ''there'')"

text \<open>The content after the \<open>[name]\<close> replacement and the tracking pixel.\<close>

definition named_content :: "string \<Rightarrow> contact_row \<Rightarrow> int \<Rightarrow> string" where
  "named_content content contact campaignId =
     replace_name (name_or_there contact) content @ trackingPixel (ct_id contact) campaignId"

definition personalizedContent :: "string \<Rightarrow> contact_row \<Rightarrow> int \<Rightarrow> string" where
  "personalizedContent content contact campaignId =
     replace_string unsubscribe_token (unsubscribe_url (ct_email contact) campaignId)
       (named_content content contact campaignId)"

definition message :: "campaign_row \<Rightarrow> string \<Rightarrow> contact_row \<Rightarrow> int \<Rightarrow> mail" where
  \<open>message campaign content contact campaignId =
     \<lparr>mail_from = ''"'' @ c_senderName campaign @ ''" <'' @ c_senderEmail campaign @ ''>'',
      mail_to = ct_email contact,
      mail_subject = c_subject campaign,
      mail_html = personalizedContent content contact campaignId,
      mail_replyTo = c_replyToEmail campaign\<rparr>\<close>

subsection \<open>sendCampaign\<close>

definition sent_event :: "int \<Rightarrow> int \<Rightarrow> timestamp \<Rightarrow> event_row" where
  "sent_event campaignId contactId now =
     \<lparr>e_campaignId = campaignId, e_contactId = contactId, e_eventType = ''sent'',
      e_metadata = None, e_createdAt = now\<rparr>"

definition bounced_event :: "int \<Rightarrow> int \<Rightarrow> thrown \<Rightarrow> timestamp \<Rightarrow> event_row" where
  "bounced_event campaignId contactId err now =
     \<lparr>e_campaignId = campaignId, e_contactId = contactId, e_eventType = ''bounced'',
      e_metadata = Some (BounceMeta (error_message err) ''soft''), e_createdAt = now\<rparr>"

text \<open>
  One turn of the recipient loop. The \<open>try\<close> block sends the message and records the
  \<open>sent\<close> event; whatever it throws is caught and a \<open>bounced\<close> event is recorded. Only
  what the handler itself throws leaves the turn (\<open>Inl\<close>).
\<close>

definition send_one ::
  "transporter \<Rightarrow> timestamp \<Rightarrow> campaign_row \<Rightarrow> int \<Rightarrow> string \<Rightarrow> nat \<Rightarrow> contact_row \<Rightarrow> db \<Rightarrow> thrown + db" where
  "send_one transporter now campaign campaignId content i contact d =
     (case (case transporter i (message campaign content contact campaignId) of
              Some err \<Rightarrow> Inl err
            | None \<Rightarrow> insert_campaignEvent (sent_event campaignId (ct_id contact) now) d) of
        Inr d' \<Rightarrow> Inr d'
      | Inl err \<Rightarrow> insert_campaignEvent (bounced_event campaignId (ct_id contact) err now) d)"

text \<open>
  The loop over the recipients, in order; \<open>i\<close> counts the attempts. It returns what was
  thrown out of a turn, if anything, and the database as it is then.
\<close>

fun send_loop ::
  "transporter \<Rightarrow> timestamp \<Rightarrow> campaign_row \<Rightarrow> int \<Rightarrow> string \<Rightarrow> nat \<Rightarrow> contact_row list \<Rightarrow> db
   \<Rightarrow> thrown option \<times> db" where
  "send_loop transporter now campaign campaignId content i [] d = (None, d)"
| "send_loop transporter now campaign campaignId content i (contact # rest) d =
     (case send_one transporter now campaign campaignId content i contact d of
        Inl err \<Rightarrow> (Some err, d)
      | Inr d' \<Rightarrow> send_loop transporter now campaign campaignId content (Suc i) rest d')"

definition smtpConfig_of :: "settings_row \<Rightarrow> SmtpConfig" where
  "smtpConfig_of userSettings =
     \<lparr>host = (if truthy_string (s_smtpHost userSettings) then the (s_smtpHost userSettings) else []),
      port = (if truthy_number (s_smtpPort userSettings) then the (s_smtpPort userSettings) else 587),
      username = (if truthy_string (s_smtpUsername userSettings)
                  then the (s_smtpUsername userSettings) else []),
      password = (if truthy_string (s_smtpPassword userSettings)
                  then the (s_smtpPassword userSettings) else []),
      useTLS = (s_useTls userSettings \<noteq> Some False)\<rparr>"

definition mark_sent :: "timestamp \<Rightarrow> campaign_row \<Rightarrow> campaign_row" where
  "mark_sent now c = c\<lparr>c_status := Sent, c_sentAt := Some now, c_updatedAt := now\<rparr>"

definition mark_sending :: "timestamp \<Rightarrow> campaign_row \<Rightarrow> campaign_row" where
  "mark_sending now c = c\<lparr>c_status := Sending, c_updatedAt := now\<rparr>"

definition mark_failed :: "timestamp \<Rightarrow> campaign_row \<Rightarrow> campaign_row" where
  "mark_failed now c = c\<lparr>c_status := Failed, c_updatedAt := now\<rparr>"

text \<open>
  The body of the outer \<open>try\<close>: \<open>Inr\<close> is what it returns, \<open>Inl\<close> what it throws; the
  database is the one reached at that point (there is no transaction). Every \<open>new Date()\<close>
  of one call reads \<open>now\<close>.
\<close>

definition sendCampaign_try ::
  "nodemailer \<Rightarrow> timestamp \<Rightarrow> int \<Rightarrow> db \<Rightarrow> (thrown + send_result) \<times> db" where
  "sendCampaign_try createTransport now campaignId d =
     (case find (\<lambda>c. c_id c = campaignId) (campaigns d) of
        None \<Rightarrow> (Inr \<lparr>success = False, error = Some ''Campaign not found''\<rparr>, d)
      | Some campaign \<Rightarrow>
          (case find (\<lambda>s. s_userId s = c_userId campaign) (settings d) of
             None \<Rightarrow> (Inr \<lparr>success = False, error = Some ''SMTP settings not configured''\<rparr>, d)
           | Some userSettings \<Rightarrow>
               if \<not> truthy_string (s_smtpHost userSettings)
               then (Inr \<lparr>success = False, error = Some ''SMTP settings not configured''\<rparr>, d)
               else
                 let smtpConfig = smtpConfig_of userSettings;
                     recipients = contactsInList (c_listId campaign) d
                 in if length recipients = 0
                    then (Inr \<lparr>success = True, error = None\<rparr>,
                          update_campaign_where_id campaignId (mark_sent now) d)
                    else
                      (case createTransport smtpConfig of
                         Inl err \<Rightarrow> (Inl err, d)
                       | Inr transporter \<Rightarrow>
                           let d1 = update_campaign_where_id campaignId (mark_sending now) d;
                               content = base_content campaign userSettings
                           in (case send_loop transporter now campaign campaignId content 0
                                       recipients d1 of
                                 (Some err, d2) \<Rightarrow> (Inl err, d2)
                               | (None, d2) \<Rightarrow>
                                   (Inr \<lparr>success = True, error = None\<rparr>,
                                    update_campaign_where_id campaignId (mark_sent now) d2)))))"

definition sendCampaign :: "nodemailer \<Rightarrow> timestamp \<Rightarrow> int \<Rightarrow> db \<Rightarrow> send_result \<times> db" where
  "sendCampaign createTransport now campaignId d =
     (case sendCampaign_try createTransport now campaignId d of
        (Inr result, d') \<Rightarrow> (result, d')
      | (Inl err, d') \<Rightarrow>
          (\<lparr>success = False, error = Some (error_message err)\<rparr>,
           update_campaign_where_id campaignId (mark_failed now) d'))"

subsection \<open>Tracking\<close>

definition opened_event :: "int \<Rightarrow> int \<Rightarrow> timestamp \<Rightarrow> event_row" where
  "opened_event campaignId contactId now =
     \<lparr>e_campaignId = campaignId, e_contactId = contactId, e_eventType = ''opened'',
      e_metadata = None, e_createdAt = now\<rparr>"

definition clicked_event :: "int \<Rightarrow> int \<Rightarrow> string \<Rightarrow> timestamp \<Rightarrow> event_row" where
  "clicked_event campaignId contactId url now =
     \<lparr>e_campaignId = campaignId, e_contactId = contactId, e_eventType = ''clicked'',
      e_metadata = Some (ClickMeta url), e_createdAt = now\<rparr>"

text \<open>Both trackers log what the insert throws and return nothing.\<close>

definition trackEmailOpen :: "timestamp \<Rightarrow> int \<Rightarrow> int \<Rightarrow> db \<Rightarrow> db" where
  "trackEmailOpen now campaignId contactId d =
     (case find (\<lambda>e. e_campaignId e = campaignId \<and> e_contactId e = contactId \<and>
                      e_eventType e = ''opened'') (campaignEvents d) of
        Some existingEvent \<Rightarrow> d
      | None \<Rightarrow>
          (case insert_campaignEvent (opened_event campaignId contactId now) d of
             Inr d' \<Rightarrow> d'
           | Inl err \<Rightarrow> d))"

definition trackEmailClick :: "timestamp \<Rightarrow> int \<Rightarrow> int \<Rightarrow> string \<Rightarrow> db \<Rightarrow> db" where
  "trackEmailClick now campaignId contactId url d =
     (case insert_campaignEvent (clicked_event campaignId contactId url now) d of
        Inr d' \<Rightarrow> d'
      | Inl err \<Rightarrow> d)"

subsection \<open>processUnsubscribe\<close>




section \<open>Storage and the campaign-update route\<close>

definition getCampaignById :: "int \<Rightarrow> db \<Rightarrow> campaign_row option" where
  "getCampaignById campaignId d = find (\<lambda>c. c_id c = campaignId) (campaigns d)"

definition getTemplateById :: "int \<Rightarrow> db \<Rightarrow> template_row option" where
  "getTemplateById templateId d = find (\<lambda>t. t_id t = templateId) (templates d)"

text \<open>A property of a validated body that may be absent (\<open>undefined\<close>) or \<open>null\<close>.\<close>

datatype 'a optional = Undefined | Null | Given 'a

record CreateCampaignParams =
  p_name :: string
  p_subject :: string
  p_content :: string
  p_senderName :: string
  p_senderEmail :: string
  p_replyToEmail :: string
  p_listId :: int
  p_userId :: int
  p_templateId :: "int optional"
  p_scheduledAt :: "timestamp option"

text \<open>
  \<open>updateCampaign\<close>: the content is the template's when a template is named and found; the
  status follows the schedule; the rows of that id and user are updated and the first of them
  is returned. A row is written only if its list and its template resolve
  (\<open>campaigns.list_id\<close>, \<open>campaigns.template_id\<close> are references); otherwise the driver
  throws and \<open>updateCampaign\<close> rethrows. A property that is \<open>undefined\<close> is not set.
\<close>

definition updateCampaign ::
  "timestamp \<Rightarrow> int \<Rightarrow> CreateCampaignParams \<Rightarrow> db \<Rightarrow> (thrown + campaign_row option) \<times> db" where
  "updateCampaign now campaignId p d =
     (let campaignContent =
            (case p_templateId p of
               Given templateId \<Rightarrow>
                 (if templateId \<noteq> 0
                  then (case getTemplateById templateId d of
                          Some template \<Rightarrow> t_content template
                        | None \<Rightarrow> p_content p)
                  else p_content p)
             | _ \<Rightarrow> p_content p);
          status = (if p_scheduledAt p \<noteq> None then Scheduled else Draft);
          hit = (\<lambda>c. c_id c = campaignId \<and> c_userId c = p_userId p);
          set_row = (\<lambda>c. c\<lparr>c_name := p_name p, c_subject := p_subject p,
                            c_content := campaignContent, c_senderName := p_senderName p,
                            c_senderEmail := p_senderEmail p, c_replyToEmail := p_replyToEmail p,
                            c_listId := p_listId p,
                            c_templateId := (case p_templateId p of
                                               Undefined \<Rightarrow> c_templateId c
                                             | Null \<Rightarrow> None
                                             | Given templateId \<Rightarrow> Some templateId),
                            c_status := status, c_scheduledAt := p_scheduledAt p,
                            c_updatedAt := now\<rparr>);
          resolves = (\<lambda>c. (\<exists>l \<in> set (contactLists d). l_id l = c_listId c) \<and>
                           (case c_templateId c of
                              None \<Rightarrow> True
                            | Some templateId \<Rightarrow> \<exists>t \<in> set (templates d). t_id t = templateId))
      in if \<exists>c \<in> set (campaigns d). hit c \<and> \<not> resolves (set_row c)
         then (Inl fk_violation, d)
         else (Inr (map_option set_row (find hit (campaigns d))),
               d\<lparr>campaigns := map (\<lambda>c. if hit c then set_row c else c) (campaigns d)\<rparr>))"

text \<open>
  The request of \<open>PATCH /api/campaigns/:id\<close>: \<open>rq_id\<close> is \<open>parseInt(req.params.id)\<close>
  (\<open>None\<close> for \<open>NaN\<close>), \<open>rq_scheduledDate\<close> is \<open>new Date(req.body.scheduledDate)\<close>. The
  validation \<open>insertCampaignSchema.parse\<close> is a parameter: it returns the validated data or
  throws a \<open>ZodError\<close> (\<open>Inl\<close>).
\<close>

record InsertCampaign =
  v_name :: string
  v_subject :: string
  v_content :: string
  v_senderName :: string
  v_senderEmail :: string
  v_replyToEmail :: string
  v_listId :: int
  v_templateId :: "int optional"

record 'b patch_request =
  rq_id :: "int option"
  rq_body :: 'b
  rq_scheduleType :: "string option"
  rq_scheduledDate :: timestamp

datatype 'z response_body = Message string | Errors 'z | CampaignJson "campaign_row option"

record 'z response =
  res_status :: nat
  res_body :: "'z response_body"

definition patch_campaign ::
  "('b \<Rightarrow> 'z + InsertCampaign) \<Rightarrow> timestamp \<Rightarrow> 'b patch_request \<Rightarrow> db \<Rightarrow> 'z response \<times> db" where
  "patch_campaign parse now req d =
     (case rq_id req of
        None \<Rightarrow> (\<lparr>res_status = 400, res_body = Message ''Invalid campaign ID''\<rparr>, d)
      | Some campaignId \<Rightarrow>
          (case parse (rq_body req) of
             Inl zodError \<Rightarrow> (\<lparr>res_status = 400, res_body = Errors zodError\<rparr>, d)
           | Inr validatedData \<Rightarrow>
               (case getCampaignById campaignId d of
                  None \<Rightarrow> (\<lparr>res_status = 404, res_body = Message ''Campaign not found''\<rparr>, d)
                | Some campaign \<Rightarrow>
                    if c_status campaign \<noteq> Draft
                    then (\<lparr>res_status = 400,
                           res_body = Message ''Only draft campaigns can be edited''\<rparr>, d)
                    else
                      (case updateCampaign now campaignId
                              \<lparr>p_name = v_name validatedData, p_subject = v_subject validatedData,
                               p_content = v_content validatedData,
                               p_senderName = v_senderName validatedData,
                               p_senderEmail = v_senderEmail validatedData,
                               p_replyToEmail = v_replyToEmail validatedData,
                               p_listId = v_listId validatedData, p_userId = 1,
                               p_templateId = v_templateId validatedData,
                               p_scheduledAt = (if rq_scheduleType req = Some ''later''
                                                then Some (rq_scheduledDate req) else None)\<rparr> d of
                         (Inl err, d') \<Rightarrow>
                           (\<lparr>res_status = 500,
                             res_body = Message ''Failed to update campaign''\<rparr>, d')
                       | (Inr updatedCampaign, d') \<Rightarrow>
                           (\<lparr>res_status = 200, res_body = CampaignJson updatedCampaign\<rparr>, d')))))"

section \<open>Observations and sample data\<close>

text \<open>What a reader of the campaign row sees.\<close>

definition status_of :: "int \<Rightarrow> db \<Rightarrow> campaign_status option" where
  "status_of campaignId d = map_option c_status (getCampaignById campaignId d)"

definition sentAt_of :: "int \<Rightarrow> db \<Rightarrow> timestamp option option" where
  "sentAt_of campaignId d = map_option c_sentAt (getCampaignById campaignId d)"

text \<open>
  A small database: one draft campaign to a list of three members, of whom one has
  unsubscribed, and a transport that rejects one address.
\<close>

definition demo_campaign :: campaign_row where
  "demo_campaign =
     \<lparr>c_id = 1, c_name = ''Launch'', c_subject = ''Welcome'', c_content = ''Hi [name], welcome'',
      c_senderName = ''Ann'', c_senderEmail = ''ann@x.com'', c_replyToEmail = ''ann@x.com'',
      c_listId = 1, c_userId = 1, c_templateId = None, c_status = Draft, c_scheduledAt = None,
      c_sentAt = None, c_createdAt = 0, c_updatedAt = 0\<rparr>"

definition demo_contact :: "int \<Rightarrow> string \<Rightarrow> string option \<Rightarrow> contact_status \<Rightarrow> contact_row" where
  "demo_contact k email name status =
     \<lparr>ct_id = k, ct_email = email, ct_name = name, ct_status = status, ct_metadata = None,
      ct_userId = 1, ct_createdAt = 0, ct_updatedAt = 0\<rparr>"

definition demo_membership :: "int \<Rightarrow> int \<Rightarrow> int \<Rightarrow> membership_row" where
  "demo_membership k contactId listId =
     \<lparr>m_id = k, m_contactId = contactId, m_listId = listId, m_createdAt = 0, m_updatedAt = 0\<rparr>"

definition demo_settings :: settings_row where
  "demo_settings =
     \<lparr>s_userId = 1, s_smtpHost = Some ''smtp.x.com'', s_smtpPort = Some 465,
      s_smtpUsername = Some ''ann'', s_smtpPassword = Some ''secret'', s_useTls = Some True,
      s_defaultFooter = None, s_includeUnsubscribeLink = Some True\<rparr>"

definition demo_db :: db where
  "demo_db =
     \<lparr>campaigns = [demo_campaign],
      contacts = [demo_contact 1 ''a@x.com'' (Some ''Ada'') Active,
                  demo_contact 2 ''b@x.com'' None Unsubscribed,
                  demo_contact 3 ''c@x.com'' None Active],
      contactListMemberships = [demo_membership 1 1 1, demo_membership 2 2 1, demo_membership 3 3 1],
      contactLists = [\<lparr>l_id = 1, l_name = ''Everyone'', l_description = None, l_userId = 1\<rparr>],
      templates = [],
      campaignEvents = [],
      settings = [demo_settings]\<rparr>"

definition demo_transporter :: transporter where
  "demo_transporter i m = (if mail_to m = ''c@x.com'' then Some (Error ''mailbox full'') else None)"

definition demo_nodemailer :: nodemailer where
  "demo_nodemailer config = Inr demo_transporter"

definition refusing_nodemailer :: nodemailer where
  "refusing_nodemailer config = Inl (Error ''invalid transport options'')"

text \<open>The same campaign after a send, with the event that send recorded.\<close>

definition sent_campaign :: campaign_row where
  "sent_campaign = demo_campaign\<lparr>c_status := Sent, c_sentAt := Some 3\<rparr>"

definition sent_db :: db where
  "sent_db = demo_db\<lparr>campaigns := [sent_campaign],
                     campaignEvents := [sent_event 1 1 3]\<rparr>"

definition demo_fields :: InsertCampaign where
  "demo_fields =
     \<lparr>v_name = ''Launch'', v_subject = ''Welcome again'', v_content = ''Hello [name]'',
      v_senderName = ''Ann'', v_senderEmail = ''ann@x.com'', v_replyToEmail = ''ann@x.com'',
      v_listId = 1, v_templateId = Undefined\<rparr>"

definition demo_parse :: "bool \<Rightarrow> string + InsertCampaign" where
  "demo_parse valid = (if valid then Inr demo_fields else Inl ''Required'')"

definition demo_request :: "bool \<Rightarrow> bool patch_request" where
  "demo_request valid =
     \<lparr>rq_id = Some 1, rq_body = valid, rq_scheduleType = None, rq_scheduledDate = 0\<rparr>"

section \<open>Counting events\<close>

text \<open>The events of one type that a campaign has for a contact.\<close>

definition count_events :: "string \<Rightarrow> int \<Rightarrow> int \<Rightarrow> db \<Rightarrow> nat" where
  "count_events eventType campaignId contactId d =
     length (filter (\<lambda>e. e_campaignId e = campaignId \<and> e_contactId e = contactId \<and>
                          e_eventType e = eventType) (campaignEvents d))"

text \<open>The open tracker fired once for each timestamp of the list.\<close>

definition fire_opens :: "timestamp list \<Rightarrow> int \<Rightarrow> int \<Rightarrow> db \<Rightarrow> db" where
  "fire_opens stamps campaignId contactId d =
     foldl (\<lambda>d now. trackEmailOpen now campaignId contactId d) d stamps"



section \<open>Tokens in content\<close>



text \<open>
  The name replacement as the specification words it: every match of the token, in either
  case of its letters, is replaced by the name itself, taken literally.
\<close>

function spec_replace_name :: "string \<Rightarrow> string \<Rightarrow> string" where
  "spec_replace_name name [] = []"
| "spec_replace_name name (c # cs) =
     (if name_token_at (c # cs) then name @ spec_replace_name name (drop 6 (c # cs))
      else c # spec_replace_name name cs)"
  by pat_completeness auto
termination
  by (relation "measure (\<lambda>(name, rest). length rest)") auto


definition cash_contact :: contact_row where
  "cash_contact = demo_contact 4 ''cash@x.com'' (Some ''Ca$$h'') Active"

section \<open>Properties of the statements\<close>

lemma find_update_id:
  assumes "\<And>c. c_id (f c) = c_id c"
  shows "find (\<lambda>c. c_id c = k) (map (\<lambda>c. if c_id c = k then f c else c) cs)
         = map_option f (find (\<lambda>c. c_id c = k) cs)"
  using assms by (induction cs) auto

lemma getCampaignById_update:
  assumes "\<And>c. c_id (f c) = c_id c"
  shows "getCampaignById k (update_campaign_where_id k f d) = map_option f (getCampaignById k d)"
  using find_update_id [OF assms] by (simp add: getCampaignById_def update_campaign_where_id_def)

lemma mark_ids [simp]:
  "c_id (mark_sent now c) = c_id c" "c_id (mark_sending now c) = c_id c" "c_id (mark_failed now c) = c_id c"
  by (simp_all add: mark_sent_def mark_sending_def mark_failed_def)

lemma update_campaign_other_tables [simp]:
  "campaignEvents (update_campaign_where_id k f d) = campaignEvents d"
  "contacts (update_campaign_where_id k f d) = contacts d"
  "settings (update_campaign_where_id k f d) = settings d"
  "contactListMemberships (update_campaign_where_id k f d) = contactListMemberships d"
  by (simp_all add: update_campaign_where_id_def)

lemma send_one_records:
  assumes "\<exists>c \<in> set (campaigns d). c_id c = campaignId"
      and "\<exists>ct \<in> set (contacts d). ct_id ct = ct_id contact"
  shows "send_one transporter now campaign campaignId content i contact d
         = Inr (d\<lparr>campaignEvents := campaignEvents d @
                  [case transporter i (message campaign content contact campaignId) of
                     None \<Rightarrow> sent_event campaignId (ct_id contact) now
                   | Some err \<Rightarrow> bounced_event campaignId (ct_id contact) err now]\<rparr>)"
  using assms
  by (simp add: send_one_def insert_campaignEvent_def sent_event_def bounced_event_def
           split: option.splits)

lemma send_loop_records:
  assumes "\<exists>c \<in> set (campaigns d). c_id c = campaignId"
      and "\<forall>r \<in> set rs. \<exists>ct \<in> set (contacts d). ct_id ct = ct_id r"
  shows "send_loop transporter now campaign campaignId content i rs d
         = (None, d\<lparr>campaignEvents := campaignEvents d @
                  map (\<lambda>(j, contact).
                         case transporter j (message campaign content contact campaignId) of
                           None \<Rightarrow> sent_event campaignId (ct_id contact) now
                         | Some err \<Rightarrow> bounced_event campaignId (ct_id contact) err now)
                      (enumerate i rs)\<rparr>)"
  using assms
proof (induction rs arbitrary: i d)
  case Nil
  then show ?case by simp
next
  case (Cons r rs)
  let ?ev = "case transporter i (message campaign content r campaignId) of
               None \<Rightarrow> sent_event campaignId (ct_id r) now
             | Some err \<Rightarrow> bounced_event campaignId (ct_id r) err now"
  let ?d' = "d\<lparr>campaignEvents := campaignEvents d @ [?ev]\<rparr>"
  have one: "send_one transporter now campaign campaignId content i r d = Inr ?d'"
    using Cons.prems by (intro send_one_records) auto
  have "send_loop transporter now campaign campaignId content (Suc i) rs ?d'
        = (None, ?d'\<lparr>campaignEvents := campaignEvents ?d' @
                  map (\<lambda>(j, contact).
                         case transporter j (message campaign content contact campaignId) of
                           None \<Rightarrow> sent_event campaignId (ct_id contact) now
                         | Some err \<Rightarrow> bounced_event campaignId (ct_id contact) err now)
                      (enumerate (Suc i) rs)\<rparr>)"
    using Cons.prems by (intro Cons.IH) auto
  then show ?case by (simp add: one)
qed

lemma contactsInList_subset: "set (contactsInList listId d) \<subseteq> set (contacts d)"
  by (auto simp: contactsInList_def)

lemma find_Some_id: "find (\<lambda>c. c_id c = k) cs = Some c \<Longrightarrow> c \<in> set cs \<and> c_id c = k"
  by (induction cs) (auto split: if_splits)

lemma update_campaign_ids:
  assumes "\<And>c. c_id (f c) = c_id c"
  shows "(\<exists>c \<in> set (campaigns (update_campaign_where_id k f d)). c_id c = k')
         \<longleftrightarrow> (\<exists>c \<in> set (campaigns d). c_id c = k')"
proof -
  have "c_id ` set (map (\<lambda>c. if c_id c = k then f c else c) cs) = c_id ` set cs" for cs
    by (induction cs) (simp_all add: assms)
  then have eq: "c_id ` set (campaigns (update_campaign_where_id k f d)) = c_id ` set (campaigns d)"
    by (simp add: update_campaign_where_id_def)
  have "(\<exists>c \<in> set (campaigns (update_campaign_where_id k f d)). c_id c = k')
        \<longleftrightarrow> k' \<in> c_id ` set (campaigns (update_campaign_where_id k f d))"
    by force
  also have "\<dots> \<longleftrightarrow> k' \<in> c_id ` set (campaigns d)"
    by (simp only: eq)
  also have "\<dots> \<longleftrightarrow> (\<exists>c \<in> set (campaigns d). c_id c = k')"
    by force
  finally show ?thesis .
qed

lemma sendCampaign_dispatch:
  assumes c: "getCampaignById campaignId d = Some campaign"
      and s: "find (\<lambda>s. s_userId s = c_userId campaign) (settings d) = Some userSettings"
      and h: "truthy_string (s_smtpHost userSettings)"
      and r: "contactsInList (c_listId campaign) d \<noteq> []"
      and t: "createTransport (smtpConfig_of userSettings) = Inr transporter"
  shows "sendCampaign_try createTransport now campaignId d
         = (Inr \<lparr>success = True, error = None\<rparr>,
            update_campaign_where_id campaignId (mark_sent now)
              (update_campaign_where_id campaignId (mark_sending now) d
                 \<lparr>campaignEvents := campaignEvents d @
                    map (\<lambda>(j, contact).
                           case transporter j (message campaign (base_content campaign userSettings)
                                                 contact campaignId) of
                             None \<Rightarrow> sent_event campaignId (ct_id contact) now
                           | Some err \<Rightarrow> bounced_event campaignId (ct_id contact) err now)
                        (enumerate 0 (contactsInList (c_listId campaign) d))\<rparr>))"
proof -
  let ?d1 = "update_campaign_where_id campaignId (mark_sending now) d"
  have "\<exists>c \<in> set (campaigns d). c_id c = campaignId"
    using find_Some_id [of campaignId "campaigns d" campaign] c by (auto simp: getCampaignById_def)
  then have ex: "\<exists>c \<in> set (campaigns ?d1). c_id c = campaignId"
    by (simp add: update_campaign_ids)
  have rs: "\<forall>r \<in> set (contactsInList (c_listId campaign) d). \<exists>ct \<in> set (contacts ?d1). ct_id ct = ct_id r"
    using contactsInList_subset [of "c_listId campaign" d] by auto
  show ?thesis
    using c s h r t
    by (simp add: sendCampaign_try_def getCampaignById_def send_loop_records [OF ex rs])
qed

lemma demo_lookup:
  "getCampaignById 1 demo_db = Some demo_campaign"
  "find (\<lambda>s. s_userId s = c_userId demo_campaign) (settings demo_db) = Some demo_settings"
  "truthy_string (s_smtpHost demo_settings)"
  "contactsInList (c_listId demo_campaign) demo_db
     = [demo_contact 1 ''a@x.com'' (Some ''Ada'') Active, demo_contact 3 ''c@x.com'' None Active]"
  by (simp_all add: getCampaignById_def demo_db_def demo_campaign_def demo_settings_def
        truthy_string_def contactsInList_def demo_contact_def demo_membership_def)

lemma getCampaignById_events [simp]:
  "getCampaignById k (d\<lparr>campaignEvents := es\<rparr>) = getCampaignById k d"
  by (simp add: getCampaignById_def)

lemma sendCampaign_refused:
  assumes c: "getCampaignById campaignId d = Some campaign"
      and s: "find (\<lambda>s. s_userId s = c_userId campaign) (settings d) = Some userSettings"
      and h: "truthy_string (s_smtpHost userSettings)"
      and r: "contactsInList (c_listId campaign) d \<noteq> []"
      and t: "createTransport (smtpConfig_of userSettings) = Inl err"
  shows "sendCampaign_try createTransport now campaignId d = (Inl err, d)"
  using assms by (simp add: sendCampaign_try_def getCampaignById_def)

lemma sent_lookup:
  "getCampaignById 1 sent_db = Some sent_campaign"
  "find (\<lambda>s. s_userId s = c_userId sent_campaign)
        (settings sent_db) = Some demo_settings"
  "contactsInList (c_listId sent_campaign) sent_db
     = [demo_contact 1 ''a@x.com'' (Some ''Ada'') Active, demo_contact 3 ''c@x.com'' None Active]"
  by (simp_all add: sent_db_def sent_campaign_def getCampaignById_def demo_db_def demo_campaign_def demo_settings_def
        contactsInList_def demo_contact_def demo_membership_def)



section \<open>The send pipeline\<close>

text \<open>
  C1. A send that reaches the recipient query (the campaign exists and its owner's settings
  name a host) and resolves no active contact returns success: the campaign is \<open>sent\<close>
  with the sent-time stamped, and no event row is recorded.
\<close>

theorem send_to_empty_list:
  assumes "getCampaignById campaignId d = Some campaign"
      and "find (\<lambda>s. s_userId s = c_userId campaign) (settings d) = Some userSettings"
      and "truthy_string (s_smtpHost userSettings)"
      and "contactsInList (c_listId campaign) d = []"
  shows "fst (sendCampaign createTransport now campaignId d) = \<lparr>success = True, error = None\<rparr>
       \<and> status_of campaignId (snd (sendCampaign createTransport now campaignId d)) = Some Sent
       \<and> sentAt_of campaignId (snd (sendCampaign createTransport now campaignId d)) = Some (Some now)
       \<and> campaignEvents (snd (sendCampaign createTransport now campaignId d)) = campaignEvents d
       \<and> contacts (snd (sendCampaign createTransport now campaignId d)) = contacts d"
proof -
  have run: "sendCampaign createTransport now campaignId d
             = (\<lparr>success = True, error = None\<rparr>, update_campaign_where_id campaignId (mark_sent now) d)"
    using assms by (simp add: sendCampaign_def sendCampaign_try_def getCampaignById_def)
  show ?thesis
    using assms(1) by (simp add: run status_of_def sentAt_of_def getCampaignById_update mark_sent_def)
qed

theorem send_to_empty_list_witness:
  "fst (sendCampaign demo_nodemailer 7 1 (demo_db\<lparr>contactListMemberships := []\<rparr>))
     = \<lparr>success = True, error = None\<rparr>
   \<and> status_of 1 (snd (sendCampaign demo_nodemailer 7 1 (demo_db\<lparr>contactListMemberships := []\<rparr>)))
     = Some Sent
   \<and> sentAt_of 1 (snd (sendCampaign demo_nodemailer 7 1 (demo_db\<lparr>contactListMemberships := []\<rparr>)))
     = Some (Some 7)
   \<and> campaignEvents (snd (sendCampaign demo_nodemailer 7 1 (demo_db\<lparr>contactListMemberships := []\<rparr>)))
     = []"
proof -
  let ?d = "demo_db\<lparr>contactListMemberships := []\<rparr>"
  have c: "getCampaignById 1 ?d = Some demo_campaign"
    by (simp add: getCampaignById_def demo_db_def demo_campaign_def)
  have s: "find (\<lambda>s. s_userId s = c_userId demo_campaign) (settings ?d) = Some demo_settings"
    by (simp add: demo_db_def demo_campaign_def demo_settings_def)
  have r: "contactsInList (c_listId demo_campaign) ?d = []"
    by (simp add: contactsInList_def)
  have e: "campaignEvents ?d = []"
    by (simp add: demo_db_def)
  show ?thesis
    using send_to_empty_list [where createTransport = demo_nodemailer and now = 7,
                              OF c s demo_lookup(3) r]
    by (simp add: e)
qed

text \<open>
  C4. An unknown campaign id gives the \<open>Campaign not found\<close> error, absent settings or a
  missing host give the \<open>SMTP settings not configured\<close> error; in both cases the database
  is returned as it was.
\<close>

theorem send_aborts_without_mutation:
  "(getCampaignById campaignId d = None \<longrightarrow>
      sendCampaign createTransport now campaignId d
        = (\<lparr>success = False, error = Some ''Campaign not found''\<rparr>, d))
   \<and> (\<forall>campaign. getCampaignById campaignId d = Some campaign \<and>
         (case find (\<lambda>s. s_userId s = c_userId campaign) (settings d) of
            None \<Rightarrow> True
          | Some userSettings \<Rightarrow> \<not> truthy_string (s_smtpHost userSettings)) \<longrightarrow>
      sendCampaign createTransport now campaignId d
        = (\<lparr>success = False, error = Some ''SMTP settings not configured''\<rparr>, d))"
  by (auto simp: sendCampaign_def sendCampaign_try_def getCampaignById_def split: option.splits)

theorem send_aborts_without_mutation_witness:
  "sendCampaign demo_nodemailer 7 99 demo_db
     = (\<lparr>success = False, error = Some ''Campaign not found''\<rparr>, demo_db)
   \<and> sendCampaign demo_nodemailer 7 1 (demo_db\<lparr>settings := []\<rparr>)
     = (\<lparr>success = False, error = Some ''SMTP settings not configured''\<rparr>,
        demo_db\<lparr>settings := []\<rparr>)
   \<and> sendCampaign demo_nodemailer 7 1 (demo_db\<lparr>settings := [demo_settings\<lparr>s_smtpHost := Some []\<rparr>]\<rparr>)
     = (\<lparr>success = False, error = Some ''SMTP settings not configured''\<rparr>,
        demo_db\<lparr>settings := [demo_settings\<lparr>s_smtpHost := Some []\<rparr>]\<rparr>)"
proof -
  let ?d1 = "demo_db\<lparr>settings := []\<rparr>"
  let ?d2 = "demo_db\<lparr>settings := [demo_settings\<lparr>s_smtpHost := Some []\<rparr>]\<rparr>"
  have a: "getCampaignById 99 demo_db = None"
    by (simp add: getCampaignById_def demo_db_def demo_campaign_def)
  have b: "getCampaignById 1 ?d1 = Some demo_campaign \<and>
           (case find (\<lambda>s. s_userId s = c_userId demo_campaign) (settings ?d1) of
              None \<Rightarrow> True
            | Some userSettings \<Rightarrow> \<not> truthy_string (s_smtpHost userSettings))"
    by (simp add: getCampaignById_def demo_db_def demo_campaign_def)
  have c: "getCampaignById 1 ?d2 = Some demo_campaign \<and>
           (case find (\<lambda>s. s_userId s = c_userId demo_campaign) (settings ?d2) of
              None \<Rightarrow> True
            | Some userSettings \<Rightarrow> \<not> truthy_string (s_smtpHost userSettings))"
    by (simp add: getCampaignById_def demo_db_def demo_campaign_def demo_settings_def
          truthy_string_def)
  show ?thesis
    using send_aborts_without_mutation [of 99 demo_db demo_nodemailer 7, THEN conjunct1, rule_format, OF a]
          send_aborts_without_mutation [of 1 ?d1 demo_nodemailer 7, THEN conjunct2, rule_format, OF b]
          send_aborts_without_mutation [of 1 ?d2 demo_nodemailer 7, THEN conjunct2, rule_format, OF c]
    by simp
qed



text \<open>
  C3. An existing campaign with usable settings and at least one recipient: when the body of
  the send returns, the result is success and the campaign is \<open>sent\<close> with the sent-time
  stamped, whatever the transport did with the single messages; when it throws, the error is
  returned and the campaign is \<open>failed\<close>. The campaign is \<open>failed\<close> exactly when the body
  throws, and here the body throws exactly when the transport cannot be constructed.
\<close>

theorem send_ends_sent_unless_thrown:
  assumes c: "getCampaignById campaignId d = Some campaign"
      and s: "find (\<lambda>s. s_userId s = c_userId campaign) (settings d) = Some userSettings"
      and h: "truthy_string (s_smtpHost userSettings)"
      and r: "contactsInList (c_listId campaign) d \<noteq> []"
  shows "(\<forall>result. fst (sendCampaign_try createTransport now campaignId d) = Inr result \<longrightarrow>
            fst (sendCampaign createTransport now campaignId d) = \<lparr>success = True, error = None\<rparr>
          \<and> status_of campaignId (snd (sendCampaign createTransport now campaignId d)) = Some Sent
          \<and> sentAt_of campaignId (snd (sendCampaign createTransport now campaignId d)) = Some (Some now))
       \<and> (\<forall>err. fst (sendCampaign_try createTransport now campaignId d) = Inl err \<longrightarrow>
            fst (sendCampaign createTransport now campaignId d)
              = \<lparr>success = False, error = Some (error_message err)\<rparr>
          \<and> status_of campaignId (snd (sendCampaign createTransport now campaignId d)) = Some Failed)
       \<and> (status_of campaignId (snd (sendCampaign createTransport now campaignId d)) = Some Failed
            \<longleftrightarrow> (\<exists>err. fst (sendCampaign_try createTransport now campaignId d) = Inl err))
       \<and> ((\<exists>err. fst (sendCampaign_try createTransport now campaignId d) = Inl err)
            \<longleftrightarrow> (\<exists>err. createTransport (smtpConfig_of userSettings) = Inl err))"
proof (cases "createTransport (smtpConfig_of userSettings)")
  case (Inl err)
  note run = sendCampaign_refused [where createTransport = createTransport and now = now, OF c s h r Inl]
  show ?thesis
    using c by (simp add: sendCampaign_def run Inl status_of_def getCampaignById_update mark_failed_def)
next
  case (Inr transporter)
  note run = sendCampaign_dispatch [where createTransport = createTransport and now = now, OF c s h r Inr]
  have "getCampaignById campaignId (snd (sendCampaign createTransport now campaignId d))
        = Some (mark_sent now (mark_sending now campaign))"
    by (simp add: sendCampaign_def run getCampaignById_update c)
  then show ?thesis
    by (simp add: sendCampaign_def run Inr status_of_def sentAt_of_def mark_sent_def)
qed

theorem send_ends_sent_unless_thrown_witness:
  "fst (sendCampaign demo_nodemailer 7 1 demo_db) = \<lparr>success = True, error = None\<rparr>
   \<and> status_of 1 (snd (sendCampaign demo_nodemailer 7 1 demo_db)) = Some Sent
   \<and> sentAt_of 1 (snd (sendCampaign demo_nodemailer 7 1 demo_db)) = Some (Some 7)
   \<and> fst (sendCampaign refusing_nodemailer 7 1 demo_db)
       = \<lparr>success = False, error = Some ''invalid transport options''\<rparr>
   \<and> status_of 1 (snd (sendCampaign refusing_nodemailer 7 1 demo_db)) = Some Failed"
proof -
  have r: "contactsInList (c_listId demo_campaign) demo_db \<noteq> []"
    by (simp add: demo_lookup)
  note ok = send_ends_sent_unless_thrown
              [where createTransport = demo_nodemailer and now = 7, OF demo_lookup(1-3) r]
  note ko = send_ends_sent_unless_thrown
              [where createTransport = refusing_nodemailer and now = 7, OF demo_lookup(1-3) r]
  have "\<not> (\<exists>err. demo_nodemailer (smtpConfig_of demo_settings) = Inl err)"
    by (simp add: demo_nodemailer_def)
  with ok have "\<not> (\<exists>err. fst (sendCampaign_try demo_nodemailer 7 1 demo_db) = Inl err)"
    by blast
  then obtain result where "fst (sendCampaign_try demo_nodemailer 7 1 demo_db) = Inr result"
    by (cases "fst (sendCampaign_try demo_nodemailer 7 1 demo_db)") auto
  with ok have sent: "fst (sendCampaign demo_nodemailer 7 1 demo_db) = \<lparr>success = True, error = None\<rparr>
      \<and> status_of 1 (snd (sendCampaign demo_nodemailer 7 1 demo_db)) = Some Sent
      \<and> sentAt_of 1 (snd (sendCampaign demo_nodemailer 7 1 demo_db)) = Some (Some 7)"
    by blast
  have "\<exists>err. refusing_nodemailer (smtpConfig_of demo_settings) = Inl err"
    by (simp add: refusing_nodemailer_def)
  with ko obtain err where e: "fst (sendCampaign_try refusing_nodemailer 7 1 demo_db) = Inl err"
    by blast
  with ko have failed: "fst (sendCampaign refusing_nodemailer 7 1 demo_db)
                          = \<lparr>success = False, error = Some (error_message err)\<rparr>
      \<and> status_of 1 (snd (sendCampaign refusing_nodemailer 7 1 demo_db)) = Some Failed"
    by blast
  have "sendCampaign_try refusing_nodemailer 7 1 demo_db = (Inl (Error ''invalid transport options''), demo_db)"
    using demo_lookup(1-3) r
    by (intro sendCampaign_refused) (simp_all add: refusing_nodemailer_def)
  with e have "err = Error ''invalid transport options''"
    by simp
  with sent failed show ?thesis
    by (simp add: error_message_def)
qed



section \<open>The event recorder\<close>

lemma trackEmailOpen_tables [simp]:
  "campaigns (trackEmailOpen now campaignId contactId d) = campaigns d"
  "contacts (trackEmailOpen now campaignId contactId d) = contacts d"
  by (simp_all add: trackEmailOpen_def insert_campaignEvent_def split: option.splits)

lemma trackEmailOpen_count:
  assumes "\<exists>c \<in> set (campaigns d). c_id c = campaignId"
      and "\<exists>ct \<in> set (contacts d). ct_id ct = contactId"
  shows "count_events ''opened'' campaignId contactId (trackEmailOpen now campaignId contactId d)
         = max 1 (count_events ''opened'' campaignId contactId d)"
proof (cases "find (\<lambda>e. e_campaignId e = campaignId \<and> e_contactId e = contactId \<and>
                         e_eventType e = ''opened'') (campaignEvents d)")
  case None
  then have "filter (\<lambda>e. e_campaignId e = campaignId \<and> e_contactId e = contactId \<and>
                         e_eventType e = ''opened'') (campaignEvents d) = []"
    by (simp add: find_None_iff filter_empty_conv)
  with None assms show ?thesis
    by (simp add: count_events_def trackEmailOpen_def insert_campaignEvent_def opened_event_def)
next
  case (Some e)
  then have "filter (\<lambda>e. e_campaignId e = campaignId \<and> e_contactId e = contactId \<and>
                         e_eventType e = ''opened'') (campaignEvents d) \<noteq> []"
    by (auto simp: find_Some_iff filter_empty_conv)
  then have "1 \<le> count_events ''opened'' campaignId contactId d"
    by (cases "filter (\<lambda>e. e_campaignId e = campaignId \<and> e_contactId e = contactId \<and>
                         e_eventType e = ''opened'') (campaignEvents d)")
       (simp_all add: count_events_def)
  with Some show ?thesis
    by (simp add: trackEmailOpen_def)
qed

lemma fire_opens_count:
  assumes "\<exists>c \<in> set (campaigns d). c_id c = campaignId"
      and "\<exists>ct \<in> set (contacts d). ct_id ct = contactId"
  shows "count_events ''opened'' campaignId contactId (fire_opens stamps campaignId contactId d)
         = (if stamps = [] then count_events ''opened'' campaignId contactId d
            else max 1 (count_events ''opened'' campaignId contactId d))"
  using assms
proof (induction stamps arbitrary: d)
  case Nil
  then show ?case by (simp add: fire_opens_def)
next
  case (Cons now stamps)
  let ?d' = "trackEmailOpen now campaignId contactId d"
  have step: "count_events ''opened'' campaignId contactId ?d'
              = max 1 (count_events ''opened'' campaignId contactId d)"
    using Cons.prems by (rule trackEmailOpen_count)
  have "count_events ''opened'' campaignId contactId (fire_opens stamps campaignId contactId ?d')
        = (if stamps = [] then count_events ''opened'' campaignId contactId ?d'
           else max 1 (count_events ''opened'' campaignId contactId ?d'))"
    using Cons.prems by (intro Cons.IH) simp_all
  then show ?case
    by (simp add: fire_opens_def step)
qed

lemma trackEmailClick_count:
  assumes "\<exists>c \<in> set (campaigns d). c_id c = campaignId"
      and "\<exists>ct \<in> set (contacts d). ct_id ct = contactId"
  shows "count_events ''clicked'' campaignId contactId (trackEmailClick now campaignId contactId url d)
         = Suc (count_events ''clicked'' campaignId contactId d)
       \<and> campaigns (trackEmailClick now campaignId contactId url d) = campaigns d
       \<and> contacts (trackEmailClick now campaignId contactId url d) = contacts d"
  using assms
  by (simp add: count_events_def trackEmailClick_def insert_campaignEvent_def clicked_event_def)

text \<open>
  C7. For a campaign and a contact that exist: firing the open tracker any positive number of
  times on a log that holds at most one \<open>opened\<close> event of the pair leaves exactly one;
  firing the click tracker twice adds two \<open>clicked\<close> events.
\<close>

theorem opens_deduplicated_clicks_not:
  assumes c: "\<exists>c \<in> set (campaigns d). c_id c = campaignId"
      and ct: "\<exists>ct \<in> set (contacts d). ct_id ct = contactId"
  shows "(stamps \<noteq> [] \<and> count_events ''opened'' campaignId contactId d \<le> 1 \<longrightarrow>
            count_events ''opened'' campaignId contactId (fire_opens stamps campaignId contactId d) = 1)
       \<and> count_events ''clicked'' campaignId contactId
            (trackEmailClick now2 campaignId contactId url2
               (trackEmailClick now1 campaignId contactId url1 d))
          = count_events ''clicked'' campaignId contactId d + 2"
proof -
  note first = trackEmailClick_count [OF c ct, of now1 url1]
  have "count_events ''clicked'' campaignId contactId
            (trackEmailClick now2 campaignId contactId url2
               (trackEmailClick now1 campaignId contactId url1 d))
        = Suc (count_events ''clicked'' campaignId contactId
                 (trackEmailClick now1 campaignId contactId url1 d))"
    using c ct first by (intro trackEmailClick_count [THEN conjunct1]) simp_all
  then show ?thesis
    by (simp add: fire_opens_count [OF c ct] first)
qed

theorem opens_deduplicated_clicks_not_witness:
  "count_events ''opened'' 1 1 (fire_opens [8, 9] 1 1 demo_db) = 1
   \<and> count_events ''opened'' 1 1 (fire_opens [8, 9, 10] 1 1 demo_db) = 1
   \<and> count_events ''clicked'' 1 1
        (trackEmailClick 9 1 1 ''https://x.com'' (trackEmailClick 8 1 1 ''https://x.com'' demo_db)) = 2"
proof -
  have c: "\<exists>c \<in> set (campaigns demo_db). c_id c = 1"
    by (simp add: demo_db_def demo_campaign_def)
  have ct: "\<exists>ct \<in> set (contacts demo_db). ct_id ct = 1"
    by (simp add: demo_db_def demo_contact_def)
  have z: "count_events ''opened'' 1 1 demo_db = 0" "count_events ''clicked'' 1 1 demo_db = 0"
    by (simp_all add: count_events_def demo_db_def)
  show ?thesis
    using opens_deduplicated_clicks_not [OF c ct, of "[8, 9]" 9 "''https://x.com''" 8 "''https://x.com''"]
          opens_deduplicated_clicks_not [OF c ct, of "[8, 9, 10]" 9 "''https://x.com''" 8 "''https://x.com''"]
    by (simp add: z)
qed

section \<open>The unsubscribe processor\<close>






section \<open>The campaign-update route\<close>

text \<open>
  C9. A request to update a campaign that is not a draft is answered with status 400, by the
  validation or by the draft check, and the database, so every field of the campaign row, is
  as it was: \<open>updateCampaign\<close> is not reached.
\<close>

theorem patch_rejects_non_draft:
  assumes "rq_id req = Some campaignId"
      and "getCampaignById campaignId d = Some campaign"
      and "c_status campaign \<noteq> Draft"
  shows "res_status (fst (patch_campaign parse now req d)) = 400
       \<and> res_body (fst (patch_campaign parse now req d))
           = (case parse (rq_body req) of
                Inl zodError \<Rightarrow> Errors zodError
              | Inr validatedData \<Rightarrow> Message ''Only draft campaigns can be edited'')
       \<and> snd (patch_campaign parse now req d) = d"
  using assms by (simp add: patch_campaign_def split: sum.splits)

theorem patch_rejects_non_draft_witness:
  "res_status (fst (patch_campaign demo_parse 9 (demo_request True) sent_db)) = 400
   \<and> res_body (fst (patch_campaign demo_parse 9 (demo_request True) sent_db))
       = Message ''Only draft campaigns can be edited''
   \<and> snd (patch_campaign demo_parse 9 (demo_request True) sent_db) = sent_db
   \<and> res_body (fst (patch_campaign demo_parse 9 (demo_request False) sent_db)) = Errors ''Required''
   \<and> snd (patch_campaign demo_parse 9 (demo_request False) sent_db) = sent_db"
proof -
  have i: "rq_id (demo_request valid) = Some 1" for valid
    by (simp add: demo_request_def)
  have n: "c_status sent_campaign \<noteq> Draft"
    by (simp add: sent_campaign_def)
  show ?thesis
    using patch_rejects_non_draft [where parse = demo_parse and now = 9 and req = "demo_request True",
                                   OF i sent_lookup(1) n]
          patch_rejects_non_draft [where parse = demo_parse and now = 9 and req = "demo_request False",
                                   OF i sent_lookup(1) n]
    by (simp add: demo_request_def demo_parse_def)
qed

text \<open>A draft, for comparison, is updated by the same request.\<close>

lemma patch_updates_draft_example:
  "res_status (fst (patch_campaign demo_parse 9 (demo_request True) demo_db)) = 200
   \<and> map c_subject (campaigns (snd (patch_campaign demo_parse 9 (demo_request True) demo_db)))
       = [''Welcome again'']
   \<and> map c_updatedAt (campaigns (snd (patch_campaign demo_parse 9 (demo_request True) demo_db)))
       = [9]"
  by (simp add: patch_campaign_def demo_request_def demo_parse_def demo_fields_def demo_db_def
        demo_campaign_def getCampaignById_def updateCampaign_def Let_def)

section \<open>Personalized content\<close>








lemma get_substitution_plain:
  "CHR ''$'' \<notin> set rep \<Longrightarrow> get_substitution matched preceding following rep = rep"
  by (induction matched preceding following rep rule: get_substitution.induct) auto



















lemma name_token_at_length: "name_token_at zs \<Longrightarrow> 6 \<le> length zs"
  by (erule name_token_at.elims) auto









text \<open>
  C6. The replacement text of \<open>replace\<close> is read for substitution patterns, so a name that
  holds one is not inserted as it is: the name \<open>Ca$$h\<close> is rendered \<open>Ca$h\<close>, where the
  replacement the specification words gives \<open>Ca$$h\<close>.
\<close>

theorem name_with_dollar_pattern_is_rewritten:
  "name_or_there cash_contact = ''Ca$$h''
   \<and> replace_name (name_or_there cash_contact) ''Hi [name], welcome'' = ''Hi Ca$h, welcome''
   \<and> spec_replace_name (name_or_there cash_contact) ''Hi [name], welcome'' = ''Hi Ca$$h, welcome''
   \<and> \<not> sublist ''Hi Ca$$h, welcome'' (personalizedContent ''Hi [name], welcome'' cash_contact 1)"
  by code_simp

text \<open>
  For a name without a dollar sign the code does what the specification words, and the two
  renderings the specification names are the code's.
\<close>

lemma replace_name_from_plain:
  "CHR ''$'' \<notin> set name \<Longrightarrow> replace_name_from passed name str = spec_replace_name name str"
  by (induction passed name str rule: replace_name_from.induct)
     (simp_all add: get_substitution_plain del: drop_Suc_Cons take_Suc_Cons)

lemma replace_name_plain:
  "CHR ''$'' \<notin> set (name_or_there contact) \<Longrightarrow>
   replace_name (name_or_there contact) content = spec_replace_name (name_or_there contact) content"
  by (simp add: replace_name_def replace_name_from_plain)

lemma personalization_examples:
  "replace_name (name_or_there (demo_contact 3 ''c@x.com'' None Active)) ''Hi [name], welcome''
     = ''Hi there, welcome''"
  "replace_name (name_or_there (demo_contact 1 ''a@x.com'' (Some ''Ada'') Active)) ''Hi [NAME], welcome''
     = ''Hi Ada, welcome''"
  by code_simp+

end
